theory Spec2Isabelle
  imports Complex_Main
begin

section \<open>JavaScript strings\<close>

text \<open>
  A JavaScript string is modelled as a \<^typ>\<open>string\<close>, one \<^typ>\<open>char\<close> per code unit, for
  the code units below 256. \<open>is_space\<close> is the set that \<open>String.prototype.trim\<close> strips
  and that \<open>\s\<close> matches in a regular expression (white space and line terminators):
  tab, line feed, vertical tab, form feed, carriage return, space, no-break space.
\<close>

definition is_space :: "char \<Rightarrow> bool" where
  "is_space c \<longleftrightarrow>
     c \<in> {CHR 0x09, CHR 0x0A, CHR 0x0B, CHR 0x0C, CHR 0x0D, CHR 0x20, CHR 0xA0}"

definition trim :: "string \<Rightarrow> string" where
  "trim s = rev (dropWhile is_space (rev (dropWhile is_space s)))"

text \<open>\<open>s.split(sep)\<close> for a one-character separator: \<open>''''.split('','')\<close> is \<open>['''']\<close>.\<close>

fun split_on :: "char \<Rightarrow> string \<Rightarrow> string list" where
  "split_on sep [] = [[]]"
| "split_on sep (c # cs) =
     (if c = sep then [] # split_on sep cs
      else (case split_on sep cs of
              [] \<Rightarrow> [[c]]
            | p # ps \<Rightarrow> (c # p) # ps))"

text \<open>\<open>pieces.join(sep)\<close> on an array of strings.\<close>

fun join :: "string \<Rightarrow> string list \<Rightarrow> string" where
  "join sep [] = []"
| "join sep [p] = p"
| "join sep (p # q # ps) = p @ sep @ join sep (q # ps)"

text \<open>\<open>Boolean(s)\<close> for a string: only the empty string is falsy.\<close>

definition truthy_str :: "string \<Rightarrow> bool" where
  "truthy_str s \<longleftrightarrow> s \<noteq> []"

text \<open>
  \<open>toLowerCase\<close> on code units below 256: \<open>A\<close>..\<open>Z\<close> and the capital letters
  \<open>0xC0\<close>..\<open>0xDE\<close> (but the multiplication sign \<open>0xD7\<close>) move up by 32.
\<close>

definition toLowerCase_char :: "char \<Rightarrow> char" where
  "toLowerCase_char c =
     (let n = (of_char c :: nat)
      in if (65 \<le> n \<and> n \<le> 90) \<or> (192 \<le> n \<and> n \<le> 222 \<and> n \<noteq> 215)
         then char_of (n + 32) else c)"

definition toLowerCase :: "string \<Rightarrow> string" where
  "toLowerCase s = map toLowerCase_char s"

text \<open>\<open>s.split(/\r?\n/)\<close>: a line feed, or a carriage return followed by one, separates.\<close>

fun split_lines :: "string \<Rightarrow> string list" where
  "split_lines [] = [[]]"
| "split_lines (c # cs) =
     (if c = CHR 0x0A then [] # split_lines cs
      else if c = CHR 0x0D \<and> cs \<noteq> [] \<and> hd cs = CHR 0x0A then [] # split_lines (tl cs)
      else (case split_lines cs of
              [] \<Rightarrow> [[c]]
            | p # ps \<Rightarrow> (c # p) # ps))"

definition is_digit :: "char \<Rightarrow> bool" where
  "is_digit c \<longleftrightarrow> (let n = (of_char c :: nat) in 48 \<le> n \<and> n \<le> 57)"

text \<open>
  \<open>line.replace(/^\d+\.\s*/, '''')\<close>: a leading run of digits followed by a full stop is
  removed together with the white space after it; any other line is unchanged.
\<close>

definition strip_step_number :: "string \<Rightarrow> string" where
  "strip_step_number line =
     (let ds = takeWhile is_digit line; rest = dropWhile is_digit line
      in if ds \<noteq> [] \<and> rest \<noteq> [] \<and> hd rest = CHR ''.''
         then dropWhile is_space (tl rest) else line)"

text \<open>The decimal rendering of a natural number, as a template literal prints it.\<close>

fun decimal :: "nat \<Rightarrow> string" where
  "decimal n = (if n < 10 then [char_of (48 + n)] else decimal (n div 10) @ [char_of (48 + n mod 10)])"

declare decimal.simps [simp del]

section \<open>backend/server.js\<close>

subsection \<open>Thrown errors and upstream answers\<close>

text \<open>
  A thrown \<open>Error\<close> is its message: \<open>withSafeFetch\<close> keeps nothing else
  (\<open>{ error: error.message }\<close>). A failing computation is \<open>Inl message\<close>.

  What one upstream HTTP request does: \<open>fetch\<close> or \<open>response.json()\<close> rejects with an error
  (\<open>Rejected message\<close>), the response arrives with a status outside 200..299
  (\<open>NotOk status text\<close>), or the parsed JSON body arrives (\<open>Ok body\<close>).
\<close>

type_synonym message = string

datatype 'a upstream = Rejected message | NotOk nat string | Ok 'a

definition fetchJson :: "'a upstream \<Rightarrow> message + 'a" where
  "fetchJson r =
     (case r of
        Rejected m \<Rightarrow> Inl m
      | NotOk status text \<Rightarrow> Inl (''Request failed ('' @ decimal status @ ''): '' @ text)
      | Ok body \<Rightarrow> Inr body)"

text \<open>
  A JavaScript value, as far as the fields read here carry one: \<open>undefined\<close>, \<open>null\<close>, a
  string, an integer number (printed in plain decimal), or an array of strings (what a
  repeated query parameter gives).
\<close>

datatype js_value = Undefined | Null | Str string | Num int | StrArray "string list"

definition decimal_int :: "int \<Rightarrow> string" where
  "decimal_int i = (if i < 0 then ''-'' @ decimal (nat (- i)) else decimal (nat i))"


fun to_text :: "js_value \<Rightarrow> string" where
  "to_text Undefined = ''undefined''"
| "to_text Null = ''null''"
| "to_text (Str s) = s"
| "to_text (Num n) = decimal_int n"
| "to_text (StrArray xs) = join '','' xs"


text \<open>
  The message of the TypeError that reading a property of \<open>null\<close> or \<open>undefined\<close> throws.
\<close>

definition cannot_read :: "string \<Rightarrow> string \<Rightarrow> message" where
  "cannot_read what prop =
     ''Cannot read properties of '' @ what @ '' (reading '' @ [CHR 0x27] @ prop @ [CHR 0x27] @ '')''"

text \<open>The method call \<open>v.toString()\<close>; on \<open>null\<close> and \<open>undefined\<close> the property read throws.\<close>

fun toString :: "js_value \<Rightarrow> message + string" where
  "toString Null = Inl (cannot_read ''null'' ''toString'')"
| "toString Undefined = Inl (cannot_read ''undefined'' ''toString'')"
| "toString v = Inr (to_text v)"

text \<open>A default parameter \<open>(x = d)\<close> replaces \<open>undefined\<close> only.\<close>

definition default_arg :: "js_value \<Rightarrow> js_value \<Rightarrow> js_value" where
  "default_arg d x = (if x = Undefined then d else x)"

definition normalizeSource :: "js_value \<Rightarrow> message + string" where
  "normalizeSource source0 =
     (case toString (default_arg (Str ''both'') source0) of
        Inl e \<Rightarrow> Inl e
      | Inr s \<Rightarrow>
          (let v = toLowerCase s
           in if v \<in> set [''mealdb'', ''spoonacular'', ''both''] then Inr v else Inr ''both''))"

definition default_str :: "string \<Rightarrow> string option \<Rightarrow> string" where
  "default_str d x = (case x of None \<Rightarrow> d | Some s \<Rightarrow> s)"

definition sanitizeCsv :: "string option \<Rightarrow> string" where
  "sanitizeCsv v =
     join '','' (filter truthy_str (map trim (split_on CHR '','' (default_str [] v))))"

subsection \<open>Provider payloads\<close>

text \<open>
  The JSON bodies are taken at the providers' schemas: a field that may be missing or
  \<open>null\<close> is an \<open>option\<close>. \<open>truthy\<close> is \<open>Boolean(x)\<close> for such a string field.
\<close>

definition truthy :: "string option \<Rightarrow> bool" where
  "truthy x = (case x of None \<Rightarrow> False | Some s \<Rightarrow> s \<noteq> [])"

text \<open>\<open>xs.filter(Boolean)\<close> on an array whose entries are strings or \<open>null\<close>.\<close>

fun filter_Boolean :: "string option list \<Rightarrow> string list" where
  "filter_Boolean [] = []"
| "filter_Boolean (None # xs) = filter_Boolean xs"
| "filter_Boolean (Some s # xs) = (if s = [] then filter_Boolean xs else s # filter_Boolean xs)"

text \<open>
  A JavaScript number, as far as this code looks at it: whether it is truthy (neither
  zero nor NaN) and the text that string conversion gives.
\<close>

record js_number =
  number_truthy :: bool
  number_text :: string

text \<open>
  A TheMealDB meal: \<open>strIngredient n\<close> and \<open>strMeasure n\<close> are the fields
  \<open>strIngredient1\<close>, \<open>strMeasure1\<close>, ... of the JSON object.
\<close>

record mealdb_meal =
  strMeal :: "string option"
  strIngredient :: "nat \<Rightarrow> string option"
  strMeasure :: "nat \<Rightarrow> string option"
  strInstructions :: "string option"

record ext_ingredient =
  ing_original :: "string option"
  ing_amount :: "js_number option"
  ing_unit :: "string option"
  ing_name :: "string option"

text \<open>One block of \<open>analyzedInstructions\<close>: its \<open>steps\<close>, each step by its \<open>step\<close> text.\<close>

type_synonym instruction_block = "string option list option"

record spoon_meal =
  title :: "string option"
  extendedIngredients :: "ext_ingredient list option"
  analyzedInstructions :: "instruction_block list option"
  instructions :: "string option"

text \<open>The value \<open>{ source, meal }\<close> that \<open>getMealDetail\<close> returns.\<close>

datatype detail = MealDbDetail mealdb_meal | SpoonacularDetail spoon_meal

record mealdb_item =
  idMeal :: string
  item_strMeal :: string
  strMealThumb :: string

record card_ingredient =
  ci_name :: "string option"
  ci_original :: "string option"

record spoon_entry =
  entry_id :: "js_number option"
  entry_title :: "string option"
  entry_image :: "string option"
  entry_sourceUrl :: "string option"
  entry_readyInMinutes :: "js_number option"
  entry_servings :: "js_number option"
  usedIngredients :: "card_ingredient list option"
  missedIngredients :: "card_ingredient list option"
  unusedIngredients :: "card_ingredient list option"
  entry_extendedIngredients :: "card_ingredient list option"

text \<open>What \<open>withSafeFetch\<close> returns around \<open>openaiClient.videos.create\<close>.\<close>

record video_job =
  job_id :: string
  job_error :: "string option"

datatype video_result = Failure message | Job video_job

subsection \<open>Configuration and the upstream services\<close>

text \<open>
  The environment of one request: the configured credentials and, for each upstream
  endpoint the server calls, what the call does for the parameters sent. The TheMealDB
  endpoints answer with the \<open>meals\<close> field of the body (\<open>None\<close> when the body or the field
  is \<open>null\<close>); \<open>complexSearch\<close> with its \<open>results\<close> field and \<open>findByIngredients\<close> with its
  body, \<open>None\<close> when that is not an array.
\<close>

record search_params =
  sp_ingredients :: string
  sp_diet :: "string option"
  sp_intolerances :: "string option"
  sp_number :: string

record env =
  SPOONACULAR_API_KEY :: string
  openaiClient :: "(string \<Rightarrow> message + video_job) option"
  mealdb_lookup :: "string \<Rightarrow> mealdb_meal list option upstream"
  mealdb_filter :: "string \<Rightarrow> mealdb_item list option upstream"
  spoonacular_information :: "string \<Rightarrow> spoon_meal upstream"
  spoonacular_complexSearch :: "search_params \<Rightarrow> spoon_entry list option upstream"
  spoonacular_findByIngredients :: "string \<times> string \<Rightarrow> spoon_entry list option upstream"

text \<open>\<open>buildSpoonacularUrl\<close> throws before any request when the key is empty.\<close>

definition fetchFromSpoonacular :: "env \<Rightarrow> 'a upstream \<Rightarrow> message + 'a" where
  "fetchFromSpoonacular e r =
     (if SPOONACULAR_API_KEY e = [] then Inl ''Spoonacular API key is not configured''
      else fetchJson r)"

definition fetchFromMealDb :: "'a upstream \<Rightarrow> message + 'a" where
  "fetchFromMealDb r = fetchJson r"

subsection \<open>Pure helpers\<close>

definition or_empty :: "'a list option \<Rightarrow> 'a list" where
  "or_empty xs = (case xs of None \<Rightarrow> [] | Some ys \<Rightarrow> ys)"

definition mapComplexSearchResult :: "spoon_entry \<Rightarrow> spoon_entry" where
  "mapComplexSearchResult entry =
     \<lparr> entry_id = entry_id entry,
       entry_title = entry_title entry,
       entry_image = entry_image entry,
       entry_sourceUrl = entry_sourceUrl entry,
       entry_readyInMinutes = entry_readyInMinutes entry,
       entry_servings = entry_servings entry,
       usedIngredients =
         Some (case usedIngredients entry of
                 Some xs \<Rightarrow> xs
               | None \<Rightarrow> or_empty (entry_extendedIngredients entry)),
       missedIngredients = Some (or_empty (missedIngredients entry)),
       unusedIngredients = Some (or_empty (unusedIngredients entry)),
       entry_extendedIngredients = None \<rparr>"

text \<open>
  The first line of \<open>getMealDetail\<close>: the provider chosen for a \<open>sourcePreference\<close>
  (by default \<open>mealdb\<close>, which also stands in for \<open>both\<close>).
\<close>

definition selected_source :: "js_value \<Rightarrow> message + string" where
  "selected_source sourcePreference0 =
     (let sourcePreference = default_arg (Str ''mealdb'') sourcePreference0
      in normalizeSource
           (if sourcePreference = Str ''both'' then Str ''mealdb'' else sourcePreference))"

definition getMealDetail :: "env \<Rightarrow> string \<Rightarrow> js_value \<Rightarrow> message + detail" where
  "getMealDetail e ident sourcePreference =
     (case selected_source sourcePreference of
        Inl err \<Rightarrow> Inl err
      | Inr selectedSource \<Rightarrow>
          if selectedSource = ''spoonacular''
          then (case fetchFromSpoonacular e (spoonacular_information e ident) of
                  Inl err \<Rightarrow> Inl err
                | Inr meal \<Rightarrow> Inr (SpoonacularDetail meal))
          else (case fetchFromMealDb (mealdb_lookup e ident) of
                  Inl err \<Rightarrow> Inl err
                | Inr meals \<Rightarrow>
                    (case or_empty meals of
                       [] \<Rightarrow> Inl ''Recipe not found''
                     | meal # _ \<Rightarrow> Inr (MealDbDetail meal))))"

definition ingredient_parts :: "ext_ingredient \<Rightarrow> string list" where
  "ingredient_parts ingredient =
     (case ing_amount ingredient of
        None \<Rightarrow> []
      | Some n \<Rightarrow> if number_truthy n then [number_text n] else [])
     @ filter_Boolean [ing_unit ingredient, ing_name ingredient]"

definition spoonacular_ingredient_text :: "ext_ingredient \<Rightarrow> string" where
  "spoonacular_ingredient_text ingredient =
     (if truthy (ing_original ingredient) then the (ing_original ingredient)
      else trim (join '' '' (ingredient_parts ingredient)))"

definition mealdb_ingredient_text :: "mealdb_meal \<Rightarrow> nat \<Rightarrow> string option" where
  "mealdb_ingredient_text meal index =
     (case strIngredient meal (index + 1) of
        None \<Rightarrow> None
      | Some name \<Rightarrow>
          if name = [] \<or> trim name = [] then None
          else (let trimmedName = trim name;
                    trimmedQuantity = map_option trim (strMeasure meal (index + 1))
                in if truthy trimmedQuantity
                   then Some (the trimmedQuantity @ '' '' @ trimmedName)
                   else Some trimmedName))"

fun normalizeMealIngredients :: "detail \<Rightarrow> string list" where
  "normalizeMealIngredients (SpoonacularDetail meal) =
     filter truthy_str (map spoonacular_ingredient_text (or_empty (extendedIngredients meal)))"
| "normalizeMealIngredients (MealDbDetail meal) =
     filter_Boolean (map (mealdb_ingredient_text meal) [0..<20])"

definition instruction_lines :: "string \<Rightarrow> string list" where
  "instruction_lines text = filter truthy_str (map trim (split_lines text))"

fun normalizeMealSteps :: "detail \<Rightarrow> string list" where
  "normalizeMealSteps (SpoonacularDetail meal) =
     (let analyzed = or_empty (analyzedInstructions meal);
          steps = filter_Boolean (concat (map or_empty analyzed))
      in if steps \<noteq> [] then steps
         else if truthy (instructions meal) then instruction_lines (the (instructions meal))
         else [])"
| "normalizeMealSteps (MealDbDetail meal) =
     (if \<not> truthy (strInstructions meal) then []
      else filter truthy_str
             (map (\<lambda>line. trim (strip_step_number line))
                (split_lines (the (strInstructions meal)))))"

text \<open>A template literal prints \<open>undefined\<close> for a missing value.\<close>

definition interpolate :: "string option \<Rightarrow> string" where
  "interpolate x = (case x of None \<Rightarrow> ''undefined'' | Some s \<Rightarrow> s)"

definition newline :: string where
  "newline = [CHR 0x0A]"

definition numbered_steps :: "string list \<Rightarrow> string list" where
  "numbered_steps steps =
     map (\<lambda>(index, step). decimal (index + 1) @ ''. '' @ step) (enumerate 0 steps)"

definition buildSoraPrompt :: "string option \<Rightarrow> string list \<Rightarrow> string list \<Rightarrow> string" where
  "buildSoraPrompt recipeName ingredients steps =
     (let ingredientsList = join newline (map (\<lambda>item. ''- '' @ item) ingredients);
          stepsList = join newline (numbered_steps steps)
      in trim (join newline
           [ [],
             ''Create a top-down cooking instruction video showing how to make the recipe: ''
               @ [CHR 0x22] @ interpolate recipeName @ [CHR 0x22] @ ''.'',
             [],
             ''Ingredients visible in the scenes:'',
             ingredientsList,
             [],
             ''The video should follow these steps in order:'',
             stepsList,
             [],
             ''For each step, show only hands and utensils in a modern, well-lit kitchen. '',
             ''No faces, no identifiable humans.'',
             [],
             ''Video style:'',
             ''- Bright natural lighting'',
             ''- Wooden cutting board'',
             ''- Stainless steel pots, pans, and tools'',
             ''- Smooth camera movement'',
             ''- Clear close-ups for chopping, mixing, and cooking'',
             ''- Audible light kitchen ambience (no copyrighted music)'',
             [],
             ''Focus on visually demonstrating the actions exactly as described in the steps:'',
             stepsList,
             [],
             ''End the video by showing the completed dish nicely plated.'',
             [] ]))"

subsection \<open>Responses\<close>

record 'b response =
  status :: nat
  body :: 'b

text \<open>\<open>res.json(x)\<close> answers with status 200; \<open>res.status(n).json(x)\<close> with \<open>n\<close>.\<close>

definition json :: "'b \<Rightarrow> 'b response" where
  "json x = \<lparr> status = 200, body = x \<rparr>"

definition status_json :: "nat \<Rightarrow> 'b \<Rightarrow> 'b response" where
  "status_json n x = \<lparr> status = n, body = x \<rparr>"

subsection \<open>GET /api/recipes\<close>

text \<open>The \<open>errors\<close> object of the payload: its only keys are the two provider names.\<close>

record errors_map =
  errors_mealdb :: "message option"
  errors_spoonacular :: "message option"

definition keys_length :: "errors_map \<Rightarrow> nat" where
  "keys_length errs =
     (if errors_mealdb errs = None then 0 else 1) + (if errors_spoonacular errs = None then 0 else 1)"

record payload =
  payload_source :: string
  mealdb :: "mealdb_item list"
  spoonacular :: "spoon_entry list"
  errors :: errors_map

record search_query =
  q_ingredients :: "string option"
  q_number :: "string option"
  q_source :: js_value
  q_diet :: "string option"
  q_intolerances :: "string option"

datatype search_body =
    ErrorOnly message
  | ErrorDetails message payload
  | Payload payload

text \<open>
  The TheMealDB task: the fetch inside \<open>withSafeFetch\<close>, then the \<open>then\<close> callback that
  records a truthy \<open>result.error\<close>.
\<close>

definition mealdb_task :: "env \<Rightarrow> string \<Rightarrow> payload \<Rightarrow> payload" where
  "mealdb_task e sanitizedIngredients p =
     (case fetchFromMealDb (mealdb_filter e sanitizedIngredients) of
        Inr meals \<Rightarrow> p\<lparr> mealdb := or_empty meals \<rparr>
      | Inl err \<Rightarrow>
          if err \<noteq> [] then p\<lparr> errors := (errors p)\<lparr> errors_mealdb := Some err \<rparr> \<rparr> else p)"

definition spoonacular_search :: "env \<Rightarrow> string \<Rightarrow> search_query \<Rightarrow> message + spoon_entry list" where
  "spoonacular_search e sanitizedIngredients q =
     (let diet = default_str [] (q_diet q);
          intolerances = default_str [] (q_intolerances q);
          number = default_str ''12'' (q_number q);
          hasDietFilter = (diet \<noteq> [] \<or> intolerances \<noteq> [])
      in if hasDietFilter
         then (case fetchFromSpoonacular e
                      (spoonacular_complexSearch e
                         \<lparr> sp_ingredients = sanitizedIngredients,
                           sp_diet = (if diet \<noteq> [] then Some diet else None),
                           sp_intolerances = (if intolerances \<noteq> [] then Some intolerances else None),
                           sp_number = number \<rparr>) of
                 Inl err \<Rightarrow> Inl err
               | Inr results \<Rightarrow> Inr (map mapComplexSearchResult (or_empty results)))
         else (case fetchFromSpoonacular e
                      (spoonacular_findByIngredients e (sanitizedIngredients, number)) of
                 Inl err \<Rightarrow> Inl err
               | Inr data \<Rightarrow> Inr (or_empty data)))"

definition spoonacular_task :: "env \<Rightarrow> string \<Rightarrow> search_query \<Rightarrow> payload \<Rightarrow> payload" where
  "spoonacular_task e sanitizedIngredients q p =
     (case spoonacular_search e sanitizedIngredients q of
        Inr found \<Rightarrow> p\<lparr> spoonacular := found \<rparr>
      | Inl err \<Rightarrow>
          if err \<noteq> [] then p\<lparr> errors := (errors p)\<lparr> errors_spoonacular := Some err \<rparr> \<rparr> else p)"

text \<open>Which providers a selected source queries.\<close>

definition includes_mealdb :: "string \<Rightarrow> bool" where
  "includes_mealdb src \<longleftrightarrow> src = ''mealdb'' \<or> src = ''both''"

definition includes_spoonacular :: "string \<Rightarrow> bool" where
  "includes_spoonacular src \<longleftrightarrow> src = ''spoonacular'' \<or> src = ''both''"

text \<open>
  The payload once \<open>Promise.all(tasks)\<close> has settled. The two tasks write different
  fields, so the order in which they finish does not show in the payload.
\<close>

definition recipes_fan_out :: "env \<Rightarrow> string \<Rightarrow> string \<Rightarrow> search_query \<Rightarrow> payload" where
  "recipes_fan_out e selectedSource sanitizedIngredients q =
     (let includeMealDb = includes_mealdb selectedSource;
          includeSpoonacular = includes_spoonacular selectedSource;
          p0 = \<lparr> payload_source = selectedSource, mealdb = [], spoonacular = [],
                 errors = \<lparr> errors_mealdb = None, errors_spoonacular = None \<rparr> \<rparr>;
          p1 = (if includeMealDb then mealdb_task e sanitizedIngredients p0 else p0)
      in if includeSpoonacular then spoonacular_task e sanitizedIngredients q p1 else p1)"

definition recipes_respond :: "payload \<Rightarrow> search_body response" where
  "recipes_respond p =
     (if length (mealdb p) = 0 \<and> length (spoonacular p) = 0
      then status_json (if keys_length (errors p) \<noteq> 0 then 502 else 404)
             (ErrorDetails ''No recipes found'' p)
      else json (Payload p))"

text \<open>
  The handler. \<open>normalizeSource\<close> throws outside any \<open>withSafeFetch\<close> here: the request
  then ends in the framework's error handler, \<open>Inl\<close> of the message.
\<close>

definition get_recipes :: "env \<Rightarrow> search_query \<Rightarrow> message + search_body response" where
  "get_recipes e q =
     (let sanitizedIngredients = sanitizeCsv (q_ingredients q)
      in if sanitizedIngredients = []
         then Inr (status_json 400 (ErrorOnly ''Ingredients query parameter is required''))
         else (case normalizeSource (default_arg (Str ''both'') (q_source q)) of
                 Inl err \<Rightarrow> Inl err
               | Inr selectedSource \<Rightarrow>
                   Inr (recipes_respond (recipes_fan_out e selectedSource sanitizedIngredients q))))"

subsection \<open>GET /api/recipes/:id\<close>

datatype detail_body = DetailError message | Detail detail

text \<open>
  \<open>detail?.error\<close> is truthy for a caught error with a non-empty message; a caught error
  with an empty message is sent as it is, with status 200.
\<close>

definition detail_error_response :: "message \<Rightarrow> detail_body response" where
  "detail_error_response err =
     (if err \<noteq> []
      then status_json (if err = ''Recipe not found'' then 404 else 502) (DetailError err)
      else json (DetailError err))"

definition get_recipe_by_id :: "env \<Rightarrow> string \<Rightarrow> js_value \<Rightarrow> detail_body response" where
  "get_recipe_by_id e ident source0 =
     (case getMealDetail e ident (default_arg (Str ''mealdb'') source0) of
        Inl err \<Rightarrow> detail_error_response err
      | Inr d \<Rightarrow> json (Detail d))"

subsection \<open>POST /api/video\<close>

record video_request =
  recipeId :: "string option"
  video_source :: js_value
  preview :: bool

text \<open>
  The JSON body of the answer, a field that is not sent being \<open>None\<close>; the \<open>video\<close> field
  is \<open>Some None\<close> when it is sent as \<open>null\<close>.
\<close>

record video_body =
  vb_error :: "message option"
  vb_details :: "message option"
  vb_prompt :: "string option"
  vb_video :: "video_result option option"
  vb_preview :: "bool option"
  vb_missingApiKey :: "bool option"

definition no_fields :: video_body where
  "no_fields =
     \<lparr> vb_error = None, vb_details = None, vb_prompt = None, vb_video = None,
       vb_preview = None, vb_missingApiKey = None \<rparr>"

definition recipe_name :: "detail \<Rightarrow> string option" where
  "recipe_name d =
     (case d of
        SpoonacularDetail meal \<Rightarrow> title meal
      | MealDbDetail meal \<Rightarrow>
          Some (if truthy (strMeal meal) then the (strMeal meal) else ''MealMatch Recipe''))"

definition result_error :: "video_result \<Rightarrow> message option" where
  "result_error r = (case r of Failure m \<Rightarrow> Some m | Job j \<Rightarrow> job_error j)"

definition create_video :: "(string \<Rightarrow> message + video_job) \<Rightarrow> string \<Rightarrow> video_result" where
  "create_video client soraPrompt =
     (case client soraPrompt of Inl m \<Rightarrow> Failure m | Inr j \<Rightarrow> Job j)"

text \<open>
  The handler. A caught error with an empty message passes the \<open>detail?.error\<close> test;
  \<open>detail.meal\<close> is then \<open>undefined\<close> and reading \<open>strMeal\<close> throws outside any
  \<open>withSafeFetch\<close>: the request ends in the framework's error handler, \<open>Inl\<close> of the message.
\<close>

definition post_video :: "env \<Rightarrow> video_request \<Rightarrow> message + video_body response" where
  "post_video e req =
     (if \<not> truthy (recipeId req)
      then Inr (status_json 400 (no_fields\<lparr> vb_error := Some ''recipeId is required'' \<rparr>))
      else
        case getMealDetail e (the (recipeId req)) (default_arg (Str ''mealdb'') (video_source req)) of
          Inl err \<Rightarrow>
            if err \<noteq> []
            then Inr (status_json (if err = ''Recipe not found'' then 404 else 502)
                        (no_fields\<lparr> vb_error := Some err \<rparr>))
            else Inl (cannot_read ''undefined'' ''strMeal'')
        | Inr d \<Rightarrow>
            (let recipeName = recipe_name d;
                 ingredients = normalizeMealIngredients d;
                 steps = normalizeMealSteps d
             in if length ingredients = 0 \<or> length steps = 0
                then Inr (status_json 400
                       (no_fields\<lparr> vb_error :=
                          Some ''Recipe is missing ingredients or steps for video generation'' \<rparr>))
                else
                  (let soraPrompt = buildSoraPrompt recipeName ingredients steps
                   in if preview req \<or> openaiClient e = None
                      then Inr (json (no_fields\<lparr> vb_prompt := Some soraPrompt, vb_video := Some None,
                                  vb_preview := Some True,
                                  vb_missingApiKey := Some (openaiClient e = None) \<rparr>))
                      else
                        (let videoResponse = create_video (the (openaiClient e)) soraPrompt
                         in if truthy (result_error videoResponse)
                            then Inr (status_json 502
                                   (no_fields\<lparr> vb_error := Some ''Failed to generate video'',
                                      vb_details := result_error videoResponse,
                                      vb_prompt := Some soraPrompt \<rparr>))
                            else Inr (json (no_fields\<lparr> vb_prompt := Some soraPrompt,
                                         vb_video := Some (Some videoResponse) \<rparr>))))))"

section \<open>frontend/src/utils/recipeUtils.js\<close>

definition sanitizeIngredients :: "string option \<Rightarrow> string" where
  "sanitizeIngredients input =
     join '','' (filter truthy_str (map (\<lambda>piece. trim piece) (split_on CHR '','' (default_str [] input))))"

text \<open>
  The sanitizer in the words of its description: the input is split at the commas, each
  piece is trimmed, and the empty pieces are dropped; the result joins these pieces
  with single commas.
\<close>

definition csv_pieces :: "string option \<Rightarrow> string list" where
  "csv_pieces v = filter truthy_str (map trim (split_on CHR '','' (default_str [] v)))"





section \<open>frontend/src/context/MealMatchContext.jsx\<close>


text \<open>
  A JavaScript \<open>Set\<close> keeps its members in insertion order: it is the list of its
  members, without repetition. \<open>new Set(xs)\<close> adds the entries of \<open>xs\<close> in order, and
  \<open>Array.from\<close> reads the members back in that order.
\<close>

definition set_add :: "'a \<Rightarrow> 'a list \<Rightarrow> 'a list" where
  "set_add x members = (if x \<in> set members then members else members @ [x])"

definition new_Set :: "'a list \<Rightarrow> 'a list" where
  "new_Set xs = foldl (\<lambda>members x. set_add x members) [] xs"

text \<open>The \<open>forEach\<close> callback \<open>(item) => item && uniqueItems.add(item)\<close>.\<close>

definition add_item :: "string list \<Rightarrow> string option \<Rightarrow> string list" where
  "add_item uniqueItems item =
     (if truthy item then set_add (the item) uniqueItems else uniqueItems)"

definition addShoppingItems :: "string option list \<Rightarrow> string list \<Rightarrow> string list" where
  "addShoppingItems items prev = foldl add_item (new_Set prev) items"

definition removeShoppingItem :: "string \<Rightarrow> string list \<Rightarrow> string list" where
  "removeShoppingItem item prev = filter (\<lambda>entry. entry \<noteq> item) prev"

definition clearShoppingList :: "string list" where
  "clearShoppingList = []"

section \<open>The home page: match score\<close>

text \<open>\<open>s.replace(/\s+/g, ' ')\<close>: every maximal run of white space becomes one space.\<close>

function collapse_spaces :: "string \<Rightarrow> string" where
  "collapse_spaces [] = []"
| "collapse_spaces (c # cs) =
     (if is_space c then CHR 0x20 # collapse_spaces (dropWhile is_space cs)
      else c # collapse_spaces cs)"
  by pat_completeness auto
termination
  by (relation "measure length") (auto simp: le_imp_less_Suc length_dropWhile_le)

definition normalizeIngredientName :: "string \<Rightarrow> string" where
  "normalizeIngredientName name = trim (collapse_spaces (toLowerCase name))"

text \<open>
  Numbers are IEEE 754 doubles. A finite non-negative double is modelled by its exact
  value, a rational; \<open>round_double\<close> is the rounding of an exact non-negative result to
  the nearest double, ties to the even significand: the value is scaled by powers of two
  into the range of 53-bit significands, rounded to an integer there and scaled back.
  (The exponent is not bounded: the values of this program are far from the subnormal
  and the overflow range.)
\<close>

definition round_half_even :: "rat \<Rightarrow> int" where
  "round_half_even m =
     (let f = \<lfloor>m\<rfloor>; d = m - of_int f
      in if d < 1 / 2 then f else if 1 / 2 < d then f + 1 else if even f then f else f + 1)"

text \<open>The measure that decreases along the scaling: towards the range of the significands.\<close>

lemma floor_half_less: "(2::rat) \<le> x \<Longrightarrow> \<lfloor>x / 2\<rfloor> < \<lfloor>x\<rfloor>"
proof -
  assume "2 \<le> x"
  then have "x / 2 + 1 \<le> x" by simp
  then have "\<lfloor>x / 2 + 1\<rfloor> \<le> \<lfloor>x\<rfloor>" by (rule floor_mono)
  then show ?thesis by simp
qed

lemma floor_double_greater: "(1::rat) < t \<Longrightarrow> nat \<lfloor>t\<rfloor> < nat \<lfloor>2 * t\<rfloor>"
proof -
  assume t: "1 < t"
  then have "t + 1 \<le> 2 * t" by simp
  then have "\<lfloor>t + 1\<rfloor> \<le> \<lfloor>2 * t\<rfloor>" by (rule floor_mono)
  then have "\<lfloor>t\<rfloor> + 1 \<le> \<lfloor>2 * t\<rfloor>" by simp
  moreover have "0 \<le> \<lfloor>t\<rfloor>" using t by simp
  ultimately show ?thesis by linarith
qed

definition double_rank :: "rat \<Rightarrow> nat" where
  "double_rank x = (if 2 ^ 53 \<le> x then nat \<lfloor>x\<rfloor> else nat \<lfloor>2 ^ 53 / x\<rfloor>)"

lemma double_rank_halve: "2 ^ 53 \<le> x \<Longrightarrow> double_rank (x / 2) < double_rank x"
proof -
  assume a: "2 ^ 53 \<le> x"
  then have x2: "2 \<le> x" by simp
  have h1: "\<lfloor>x / 2\<rfloor> < \<lfloor>x\<rfloor>" using x2 by (rule floor_half_less)
  have "2 ^ 53 / (x / 2) \<le> 2" using a by (simp add: field_simps)
  then have "\<lfloor>2 ^ 53 / (x / 2)\<rfloor> \<le> \<lfloor>2::rat\<rfloor>" by (rule floor_mono)
  then have h3: "\<lfloor>2 ^ 53 / (x / 2)\<rfloor> \<le> 2" by simp
  have "\<lfloor>2 ^ 53 :: rat\<rfloor> \<le> \<lfloor>x\<rfloor>" using a by (rule floor_mono)
  then have h4: "2 < \<lfloor>x\<rfloor>" by simp
  have rx: "double_rank x = nat \<lfloor>x\<rfloor>" using a by (simp add: double_rank_def)
  show ?thesis
  proof (cases "2 ^ 53 \<le> x / 2")
    case True
    then have "double_rank (x / 2) = nat \<lfloor>x / 2\<rfloor>" by (simp only: double_rank_def if_True)
    then show ?thesis using rx h1 h4 by linarith
  next
    case False
    then have "double_rank (x / 2) = nat \<lfloor>2 ^ 53 / (x / 2)\<rfloor>" by (simp only: double_rank_def if_False)
    then show ?thesis using rx h3 h4 by linarith
  qed
qed

lemma double_rank_double: "0 < x \<Longrightarrow> x < 2 ^ 52 \<Longrightarrow> double_rank (2 * x) < double_rank x"
proof -
  assume a: "0 < x" "x < 2 ^ 52"
  define t where "t = 2 ^ 52 / x"
  have t1: "1 < t" using a by (simp add: t_def field_simps)
  have e1: "2 ^ 53 / (2 * x) = t" by (simp add: t_def)
  have e2: "2 ^ 53 / x = 2 * t" by (simp add: t_def)
  have n1: "\<not> 2 ^ 53 \<le> 2 * x" using a by simp
  have n2: "\<not> 2 ^ 53 \<le> x" using a by simp
  have "double_rank (2 * x) = nat \<lfloor>t\<rfloor>" using n1 e1 by (simp only: double_rank_def if_False)
  moreover have "double_rank x = nat \<lfloor>2 * t\<rfloor>" using n2 e2 by (simp only: double_rank_def if_False)
  ultimately show ?thesis using floor_double_greater [OF t1] by simp
qed

function round_double :: "rat \<Rightarrow> rat" where
  "round_double x =
     (if x \<le> 0 then 0
      else if 2 ^ 53 \<le> x then 2 * round_double (x / 2)
      else if x < 2 ^ 52 then round_double (2 * x) / 2
      else of_int (round_half_even x))"
  by pat_completeness auto
termination
proof (relation "measure double_rank")
  show "wf (measure double_rank)" by simp
next
  fix x :: rat
  assume "\<not> x \<le> 0" "2 ^ 53 \<le> x"
  then show "(x / 2, x) \<in> measure double_rank"
    using double_rank_halve [of x] by (simp only: in_measure)
next
  fix x :: rat
  assume "\<not> x \<le> 0" "\<not> 2 ^ 53 \<le> x" "x < 2 ^ 52"
  then show "(2 * x, x) \<in> measure double_rank"
    using double_rank_double [of x] by (simp only: in_measure not_le)
qed

declare round_double.simps [simp del]

text \<open>
  \<open>a / b\<close> and \<open>a * b\<close> on non-negative doubles. A zero divisor gives \<open>NaN\<close> or an
  infinity, which is \<open>None\<close>. \<open>Math.round\<close> rounds to the nearest integer, a tie upwards.
\<close>

definition double_div :: "rat \<Rightarrow> rat \<Rightarrow> rat option" where
  "double_div a b = (if b = 0 then None else Some (round_double (a / b)))"

definition double_mul :: "rat \<Rightarrow> rat \<Rightarrow> rat" where
  "double_mul a b = round_double (a * b)"

definition Math_round :: "rat \<Rightarrow> int" where
  "Math_round x = \<lfloor>x + 1 / 2\<rfloor>"

record card =
  card_usedIngredients :: "card_ingredient list option"
  card_missedIngredients :: "card_ingredient list option"

text \<open>\<open>ingredient.name || ingredient.original || ''\<close>, normalised.\<close>

definition ingredient_key :: "card_ingredient \<Rightarrow> string" where
  "ingredient_key ingredient =
     normalizeIngredientName
       (if truthy (ci_name ingredient) then the (ci_name ingredient)
        else if truthy (ci_original ingredient) then the (ci_original ingredient)
        else [])"

definition count_kept :: "string set \<Rightarrow> card_ingredient list option \<Rightarrow> nat" where
  "count_kept ignored xs =
     length (filter (\<lambda>ingredient. ingredient_key ingredient \<notin> ignored) (or_empty xs))"

text \<open>
  \<open>getMatchScore\<close>: the score, or \<open>None\<close> where the JavaScript gives \<open>NaN\<close>. The second
  argument is \<open>None\<close> when the caller leaves it out (\<open>ignored = new Set()\<close>). The two
  lengths are below \<open>2 ^ 32\<close> and so are doubles as they stand.
\<close>

definition getMatchScore :: "card \<Rightarrow> string set option \<Rightarrow> int option" where
  "getMatchScore c ignored0 =
     (let ignored = (case ignored0 of None \<Rightarrow> {} | Some s \<Rightarrow> s);
          used = count_kept ignored (card_usedIngredients c);
          missed = count_kept ignored (card_missedIngredients c);
          total = used + missed
      in if total = 0 then Some 0
         else (case double_div (of_nat used) (of_nat total) of
                 None \<Rightarrow> None
               | Some ratio \<Rightarrow> Some (Math_round (double_mul ratio 100))))"


section \<open>Sample values\<close>



text \<open>An ingredient of a card, given by its name.\<close>

definition named :: "string \<Rightarrow> card_ingredient" where
  "named n = \<lparr> ci_name = Some n, ci_original = None \<rparr>"

definition sample_meal :: mealdb_meal where
  "sample_meal =
     \<lparr> strMeal = Some ''Toast'',
       strIngredient = (\<lambda>n. if n = 1 then Some ''Bread '' else if n = 2 then Some '' '' else None),
       strMeasure = (\<lambda>n. if n = 1 then Some ''2 slices'' else None),
       strInstructions = Some (''1. Toast the bread.'' @ [CHR 0x0D, CHR 0x0A] @ ''2. Serve.'') \<rparr>"

definition sample_entry :: spoon_entry where
  "sample_entry =
     \<lparr> entry_id = Some \<lparr> number_truthy = True, number_text = ''7'' \<rparr>,
       entry_title = Some ''Soup'', entry_image = None, entry_sourceUrl = None,
       entry_readyInMinutes = None, entry_servings = None,
       usedIngredients = Some [named ''Leek''], missedIngredients = Some [],
       unusedIngredients = Some [], entry_extendedIngredients = None \<rparr>"

text \<open>
  A server with a Spoonacular key and no OpenAI key. TheMealDB knows the meal 52772 and
  finds nothing for any ingredient list; Spoonacular finds one recipe for any ingredient
  list and answers a detail request with status 404.
\<close>

definition sample_env :: env where
  "sample_env =
     \<lparr> SPOONACULAR_API_KEY = ''key'',
       openaiClient = None,
       mealdb_lookup = (\<lambda>ident. if ident = ''52772'' then Ok (Some [sample_meal]) else Ok None),
       mealdb_filter = (\<lambda>ingredients. Ok None),
       spoonacular_information = (\<lambda>ident. NotOk 404 ''A recipe with the id does not exist.''),
       spoonacular_complexSearch = (\<lambda>params. Ok (Some [])),
       spoonacular_findByIngredients = (\<lambda>params. Ok (Some [sample_entry])) \<rparr>"

definition sample_query :: search_query where
  "sample_query =
     \<lparr> q_ingredients = Some ''leek, '', q_number = None, q_source = Undefined,
       q_diet = None, q_intolerances = None \<rparr>"

definition sample_video_request :: video_request where
  "sample_video_request = \<lparr> recipeId = Some ''52772'', video_source = Undefined, preview = False \<rparr>"

text \<open>The payload before any task has written to it.\<close>

definition empty_payload :: "string \<Rightarrow> payload" where
  "empty_payload src =
     \<lparr> payload_source = src, mealdb = [], spoonacular = [],
       errors = \<lparr> errors_mealdb = None, errors_spoonacular = None \<rparr> \<rparr>"

text \<open>The sample server without its Spoonacular key, and with a Spoonacular that finds nothing.\<close>

definition no_key_env :: env where
  "no_key_env = sample_env\<lparr> SPOONACULAR_API_KEY := [] \<rparr>"

definition no_match_env :: env where
  "no_match_env = sample_env\<lparr> spoonacular_findByIngredients := (\<lambda>params. Ok None) \<rparr>"

section \<open>Properties of the sanitizer\<close>

lemma split_on_not_Nil: "split_on c s \<noteq> []"
  by (induction s) (auto split: list.splits)

lemma split_on_piece: "p \<in> set (split_on c s) \<Longrightarrow> c \<notin> set p"
proof (induction s arbitrary: p)
  case Nil
  then show ?case by simp
next
  case (Cons x xs)
  show ?case
  proof (cases "x = c")
    case True
    then show ?thesis using Cons by auto
  next
    case False
    obtain q qs where q: "split_on c xs = q # qs"
      using split_on_not_Nil [of c xs] by (cases "split_on c xs") auto
    then have "p = x # q \<or> p \<in> set qs" using Cons.prems False by simp
    then show ?thesis using Cons.IH q False by auto
  qed
qed

lemma split_on_append_piece:
  "c \<notin> set p \<Longrightarrow> split_on c (p @ c # s) = p # split_on c s"
  by (induction p) auto

lemma split_on_single: "c \<notin> set p \<Longrightarrow> split_on c p = [p]"
  by (induction p) auto

lemma split_on_join:
  "ps \<noteq> [] \<Longrightarrow> (\<And>p. p \<in> set ps \<Longrightarrow> c \<notin> set p) \<Longrightarrow> split_on c (join [c] ps) = ps"
proof (induction "[c]" ps rule: join.induct)
  case 1
  then show ?case by simp
next
  case (2 p)
  then show ?case by (simp add: split_on_single)
next
  case (3 p q ps)
  have "split_on c (join [c] (q # ps)) = q # ps" using 3 by simp
  moreover have "c \<notin> set p" using 3 by simp
  ultimately show ?case by (simp add: split_on_append_piece)
qed

lemma rev_dropWhile_rev_split:
  "rev (dropWhile Q (rev u)) @ rev (takeWhile Q (rev u)) = u"
proof -
  have "rev (takeWhile Q (rev u) @ dropWhile Q (rev u)) = u"
    by (simp only: takeWhile_dropWhile_id rev_rev_ident)
  then show ?thesis by (simp only: rev_append)
qed

lemma trim_decompose: "\<exists>a b. s = a @ trim s @ b"
proof -
  let ?u = "dropWhile is_space s"
  have "s = takeWhile is_space s @ ?u" by simp
  moreover have "?u = trim s @ rev (takeWhile is_space (rev ?u))"
    unfolding trim_def by (simp only: rev_dropWhile_rev_split)
  ultimately have "s = takeWhile is_space s @ trim s @ rev (takeWhile is_space (rev ?u))"
    by simp
  then show ?thesis by blast
qed

lemma set_trim: "set (trim s) \<subseteq> set s"
proof -
  obtain a b where "s = a @ trim s @ b" using trim_decompose by blast
  then have "set s = set a \<union> set (trim s) \<union> set b" by (metis set_append sup_assoc)
  then show ?thesis by blast
qed

lemma dropWhile_prefix_stable:
  "dropWhile P u = u \<Longrightarrow> dropWhile P (rev (dropWhile Q (rev u))) = rev (dropWhile Q (rev u))"
proof -
  assume a: "dropWhile P u = u"
  define t where "t = rev (dropWhile Q (rev u))"
  have u: "t @ rev (takeWhile Q (rev u)) = u"
    unfolding t_def by (rule rev_dropWhile_rev_split)
  have "dropWhile P t = t"
  proof (cases t)
    case Nil
    then show ?thesis by simp
  next
    case (Cons x xs)
    then have "hd u = x" using u by (metis append_Cons list.sel(1))
    moreover have "u \<noteq> []" using u Cons by auto
    ultimately have "\<not> P x" using a by (metis hd_dropWhile)
    then show ?thesis using Cons by simp
  qed
  then show ?thesis by (simp only: t_def)
qed

lemma trim_idem: "trim (trim s) = trim s"
proof -
  let ?u = "dropWhile is_space s"
  have 1: "dropWhile is_space (trim s) = trim s"
    unfolding trim_def by (rule dropWhile_prefix_stable) simp
  have 2: "dropWhile is_space (rev (trim s)) = rev (trim s)"
    by (simp add: trim_def)
  show ?thesis
    by (subst trim_def) (simp add: 1 2 del: rev_rev_ident, simp)
qed

lemma csv_pieces_no_comma: "p \<in> set (csv_pieces v) \<Longrightarrow> CHR '','' \<notin> set p"
  using split_on_piece set_trim unfolding csv_pieces_def by fastforce

lemma sanitize_example: "sanitizeCsv (Some ''chicken, , rice,'') = ''chicken,rice''"
  by (simp add: sanitizeCsv_def default_str_def trim_def is_space_def truthy_str_def)


lemma map_trim_trimmed:
  "map trim (filter truthy_str (map trim xs)) = filter truthy_str (map trim xs)"
  by (induction xs) (auto simp: trim_idem)

lemma filter_map_trim_stable:
  "filter truthy_str (map trim (csv_pieces v)) = csv_pieces v"
  by (simp add: csv_pieces_def map_trim_trimmed)

lemma sanitize_pieces:
  "split_on CHR '','' (sanitizeCsv v) = (if csv_pieces v = [] then [[]] else csv_pieces v)"
proof (cases "csv_pieces v = []")
  case True
  then show ?thesis by (simp add: sanitizeCsv_def csv_pieces_def)
next
  case False
  have "split_on CHR '','' (join [CHR '',''] (csv_pieces v)) = csv_pieces v"
    using False csv_pieces_no_comma by (rule split_on_join)
  then show ?thesis using False by (simp add: sanitizeCsv_def csv_pieces_def)
qed

lemma sanitize_idem: "sanitizeCsv (Some (sanitizeCsv v)) = sanitizeCsv v"
proof -
  have "csv_pieces (Some (sanitizeCsv v)) = csv_pieces v"
  proof (cases "csv_pieces v = []")
    case True
    then show ?thesis
      using sanitize_pieces [of v]
      by (simp add: csv_pieces_def [of "Some _"] default_str_def trim_def truthy_str_def)
  next
    case False
    then show ?thesis
      using sanitize_pieces [of v] filter_map_trim_stable [of v]
      by (simp add: csv_pieces_def [of "Some _"] default_str_def)
  qed
  then show ?thesis by (simp add: sanitizeCsv_def csv_pieces_def)
qed

text \<open>
  Claim C6. Sanitizing \<open>chicken, , rice,\<close> gives \<open>chicken,rice\<close>. The frontend
  \<open>sanitizeIngredients\<close> and the backend \<open>sanitizeCsv\<close> are the same function. The result is
  the comma-joined list of the trimmed, non-empty pieces of the input: splitting the
  result at its commas gives exactly those pieces back (or the one empty piece when there
  are none), so sanitizing again changes nothing.
\<close>

theorem sanitizeCsv_spec:
  "sanitizeCsv (Some ''chicken, , rice,'') = ''chicken,rice''
   \<and> sanitizeIngredients v = sanitizeCsv v
   \<and> sanitizeCsv v = join '','' (csv_pieces v)
   \<and> split_on CHR '','' (sanitizeCsv v) = (if csv_pieces v = [] then [[]] else csv_pieces v)
   \<and> sanitizeCsv (Some (sanitizeCsv v)) = sanitizeCsv v"
  using sanitize_example sanitize_pieces [of v] sanitize_idem [of v]
  by (simp add: sanitizeCsv_def sanitizeIngredients_def csv_pieces_def)

section \<open>Properties of \<open>normalizeSource\<close>\<close>





section \<open>Properties of the prompt builder\<close>



text \<open>The prompt is never the empty string: the template has visible text.\<close>

lemma trim_nonempty: "c \<in> set s \<Longrightarrow> \<not> is_space c \<Longrightarrow> trim s \<noteq> []"
proof -
  assume a: "c \<in> set s" "\<not> is_space c"
  let ?u = "dropWhile is_space s"
  have u: "?u \<noteq> []" using a by (auto simp: dropWhile_eq_Nil_conv)
  then have "\<not> is_space (hd ?u)" by (rule hd_dropWhile)
  moreover have "hd ?u \<in> set (rev ?u)" using u by simp
  ultimately have "dropWhile is_space (rev ?u) \<noteq> []"
    by (auto simp: dropWhile_eq_Nil_conv)
  then show ?thesis by (simp add: trim_def)
qed

lemma buildSoraPrompt_nonempty: "buildSoraPrompt recipeName ingredients steps \<noteq> []"
proof -
  have "\<not> is_space CHR ''C''" by (simp add: is_space_def)
  moreover have "CHR ''C'' \<in> set (join newline ([] # (''C'' @ a) # rest))" for a rest
    by (cases rest) simp_all
  ultimately show ?thesis
    unfolding buildSoraPrompt_def Let_def
    by (intro trim_nonempty [of "CHR ''C''"]) simp_all
qed

section \<open>Properties of the shopping list\<close>

lemma set_add_set: "set (set_add x m) = insert x (set m)"
  by (auto simp: set_add_def)

lemma set_add_distinct: "distinct m \<Longrightarrow> distinct (set_add x m)"
  by (simp add: set_add_def)

lemma set_add_prefix: "take (length m) (set_add x m) = m"
  by (simp add: set_add_def)

lemma new_Set_acc:
  "distinct (acc @ xs) \<Longrightarrow> foldl (\<lambda>members x. set_add x members) acc xs = acc @ xs"
proof (induction xs arbitrary: acc)
  case Nil
  then show ?case by simp
next
  case (Cons x xs)
  have "set_add x acc = acc @ [x]" using Cons.prems by (simp add: set_add_def)
  moreover have "distinct ((acc @ [x]) @ xs)" using Cons.prems by simp
  ultimately show ?case using Cons.IH [of "acc @ [x]"] by simp
qed

lemma new_Set_distinct: "distinct xs \<Longrightarrow> new_Set xs = xs"
  using new_Set_acc [of "[]" xs] by (simp add: new_Set_def)

lemma add_fold:
  "distinct acc \<Longrightarrow>
     distinct (foldl add_item acc items)
     \<and> take (length acc) (foldl add_item acc items) = acc
     \<and> length acc \<le> length (foldl add_item acc items)
     \<and> set (foldl add_item acc items) = set acc \<union> {s. Some s \<in> set items \<and> s \<noteq> []}"
proof (induction items arbitrary: acc)
  case Nil
  then show ?case by simp
next
  case (Cons item items)
  let ?a = "add_item acc item"
  have d: "distinct ?a" using Cons.prems by (simp add: add_item_def set_add_distinct)
  have p: "take (length acc) ?a = acc" by (simp add: add_item_def set_add_prefix)
  have l: "length acc \<le> length ?a" by (simp add: add_item_def set_add_def)
  have s: "set ?a = set acc \<union> {s. Some s = item \<and> s \<noteq> []}"
    by (cases item) (auto simp: add_item_def set_add_set truthy_def)
  note ih = Cons.IH [OF d]
  have t: "take (length acc) (foldl add_item ?a items) = acc"
  proof -
    have "take (length acc) (foldl add_item ?a items)
            = take (length acc) (take (length ?a) (foldl add_item ?a items))"
      using l by (simp add: min_def)
    then show ?thesis using ih p by simp
  qed
  show ?case using ih l s t by auto
qed

text \<open>
  Claim C8. From a shopping list without duplicates, \<open>addShoppingItems\<close> keeps the list
  as a prefix and appends exactly the non-empty items that were not in it, each once;
  \<open>removeShoppingItem\<close> and \<open>clearShoppingList\<close> leave a list without duplicates.
\<close>

theorem shopping_list_duplicate_free:
  "distinct prev \<Longrightarrow>
     distinct (addShoppingItems items prev)
     \<and> take (length prev) (addShoppingItems items prev) = prev
     \<and> set (drop (length prev) (addShoppingItems items prev))
         = {s. Some s \<in> set items \<and> s \<noteq> []} - set prev
     \<and> distinct (removeShoppingItem item prev)
     \<and> set (removeShoppingItem item prev) = set prev - {item}
     \<and> distinct clearShoppingList"
proof -
  assume d: "distinct prev"
  let ?r = "addShoppingItems items prev"
  have r: "?r = foldl add_item prev items"
    using d by (simp add: addShoppingItems_def new_Set_distinct)
  note f = add_fold [OF d, of items]
  have dr: "distinct ?r" and tk: "take (length prev) ?r = prev"
    and st: "set ?r = set prev \<union> {s. Some s \<in> set items \<and> s \<noteq> []}"
    using f r by simp_all
  have split: "?r = prev @ drop (length prev) ?r"
    using tk by (metis append_take_drop_id)
  have disj: "set prev \<inter> set (drop (length prev) ?r) = {}"
    using dr split by (metis distinct_append)
  have un: "set prev \<union> set (drop (length prev) ?r) = set prev \<union> {s. Some s \<in> set items \<and> s \<noteq> []}"
    using st split by (metis set_append)
  have dropset: "set (drop (length prev) ?r) = {s. Some s \<in> set items \<and> s \<noteq> []} - set prev"
    using disj un by blast
  show ?thesis
    using d dr tk dropset by (auto simp: removeShoppingItem_def clearShoppingList_def)
qed

theorem shopping_list_duplicate_free_witness:
  "distinct [''eggs'', ''milk'']
   \<and> addShoppingItems [Some ''milk'', None, Some [], Some ''flour'', Some ''flour''] [''eggs'', ''milk'']
       = [''eggs'', ''milk'', ''flour'']
   \<and> distinct (addShoppingItems [Some ''milk'', None, Some [], Some ''flour'', Some ''flour''] [''eggs'', ''milk''])
   \<and> distinct (removeShoppingItem ''eggs'' [''eggs'', ''milk''])"
proof -
  have h: "distinct [''eggs'', ''milk'']" by simp
  have e: "addShoppingItems [Some ''milk'', None, Some [], Some ''flour'', Some ''flour''] [''eggs'', ''milk'']
       = [''eggs'', ''milk'', ''flour'']"
    by (simp add: addShoppingItems_def add_item_def new_Set_def set_add_def truthy_def)
  show ?thesis
    using shopping_list_duplicate_free [OF h, of "[Some ''milk'', None, Some [], Some ''flour'', Some ''flour'']" "''eggs''"] e
    by simp
qed

section \<open>Properties of the favorites\<close>














section \<open>Properties of the match score\<close>

lemma round_half_even_nonneg: "0 \<le> m \<Longrightarrow> 0 \<le> round_half_even m"
  by (simp add: round_half_even_def Let_def)

lemma round_half_even_le: "m \<le> of_int k \<Longrightarrow> round_half_even m \<le> k"
proof -
  assume a: "m \<le> of_int k"
  have f: "\<lfloor>m\<rfloor> \<le> k" using a by (simp add: floor_le_iff) 
  show ?thesis
  proof (cases "\<lfloor>m\<rfloor> = k")
    case True
    then have "of_int \<lfloor>m\<rfloor> = (of_int k :: rat)" by simp
    moreover have "of_int \<lfloor>m\<rfloor> \<le> m" by simp
    ultimately have "m - of_int \<lfloor>m\<rfloor> = 0" using a by linarith
    then show ?thesis using True by (simp add: round_half_even_def Let_def)
  next
    case False
    then have "\<lfloor>m\<rfloor> + 1 \<le> k" using f by simp
    then show ?thesis by (simp add: round_half_even_def Let_def)
  qed
qed

lemma round_double_nonneg: "0 \<le> round_double x"
proof (induction x rule: round_double.induct)
  case (1 x)
  show ?case
  proof (cases "x \<le> 0")
    case True
    then show ?thesis by (subst round_double.simps) simp
  next
    case pos: False
    show ?thesis
    proof (cases "2 ^ 53 \<le> x")
      case True
      then have "0 \<le> round_double (x / 2)" using pos 1(1) by simp
      then show ?thesis using pos True by (subst round_double.simps) simp
    next
      case small: False
      show ?thesis
      proof (cases "x < 2 ^ 52")
        case True
        then have "0 \<le> round_double (2 * x)" using pos small 1(2) by simp
        then show ?thesis using pos small True by (subst round_double.simps) simp
      next
        case False
        have "0 \<le> round_half_even x" using pos by (simp add: round_half_even_nonneg)
        then show ?thesis using pos small False by (subst round_double.simps) simp
      qed
    qed
  qed
qed

lemma round_double_le:
  "0 \<le> k \<Longrightarrow> x < 2 ^ 53 \<Longrightarrow> x \<le> of_int k \<Longrightarrow> round_double x \<le> of_int k"
proof (induction x arbitrary: k rule: round_double.induct)
  case (1 x)
  show ?case
  proof (cases "x \<le> 0")
    case True
    then have "round_double x = 0" by (subst round_double.simps) simp
    then show ?thesis using 1(3) by simp
  next
    case pos: False
    have small: "\<not> 2 ^ 53 \<le> x" using 1(4) by simp
    show ?thesis
    proof (cases "x < 2 ^ 52")
      case True
      have "round_double (2 * x) \<le> of_int (2 * k)"
      proof (rule 1(2) [OF pos small True])
        show "0 \<le> 2 * k" using 1(3) by simp
        show "2 * x < 2 ^ 53" using True by simp
        show "2 * x \<le> of_int (2 * k)" using 1(5) by simp
      qed
      then have "round_double (2 * x) / 2 \<le> of_int k" by simp
      moreover have "round_double x = round_double (2 * x) / 2"
        using pos small True by (subst round_double.simps) simp
      ultimately show ?thesis by simp
    next
      case False
      have "round_half_even x \<le> k" using 1(5) by (rule round_half_even_le)
      moreover have "round_double x = of_int (round_half_even x)"
        using pos small False by (subst round_double.simps) simp
      ultimately show ?thesis by simp
    qed
  qed
qed

lemma score_bounds:
  assumes "used \<le> tot" and "0 < tot"
  shows "\<exists>ratio. double_div (of_nat used) (of_nat tot) = Some ratio
           \<and> 0 \<le> Math_round (double_mul ratio 100) \<and> Math_round (double_mul ratio 100) \<le> 100"
proof -
  let ?q = "(of_nat used :: rat) / of_nat tot"
  let ?r = "round_double ?q"
  have q1: "?q \<le> 1" using assms by simp
  have dd: "double_div (of_nat used) (of_nat tot) = Some ?r"
    using assms by (simp add: double_div_def)
  have r0: "0 \<le> ?r" by (rule round_double_nonneg)
  have "?r \<le> of_int 1"
  proof (rule round_double_le)
    show "(0::int) \<le> 1" by simp
    show "?q < 2 ^ 53" using q1 by simp
    show "?q \<le> of_int 1" using q1 by simp
  qed
  then have r1: "?r \<le> 1" by simp
  let ?p = "double_mul ?r 100"
  have p0: "0 \<le> ?p" unfolding double_mul_def by (rule round_double_nonneg)
  have "?p \<le> of_int 100"
    unfolding double_mul_def
  proof (rule round_double_le)
    show "(0::int) \<le> 100" by simp
    show "?r * 100 < 2 ^ 53" using r1 by simp
    show "?r * 100 \<le> of_int 100" using r1 by simp
  qed
  then have p1: "?p \<le> 100" by simp
  have "0 \<le> Math_round ?p" using p0 by (simp add: Math_round_def)
  moreover have "Math_round ?p \<le> 100"
  proof -
    have "?p + 1 / 2 < 101" using p1 by simp
    then have "\<lfloor>?p + 1 / 2\<rfloor> < 101" by (simp add: floor_less_iff)
    then show ?thesis by (simp add: Math_round_def)
  qed
  ultimately show ?thesis using dd by simp
qed

text \<open>
  Claim C10. For every card and every set of ignored ingredients, with or without the
  second argument, \<open>getMatchScore\<close> returns a number (never \<open>NaN\<close>: the division is
  only reached with a positive total), and the number is an integer from 0 to 100.
\<close>

theorem getMatchScore_bounds:
  "\<exists>n. getMatchScore c ignored = Some n \<and> 0 \<le> n \<and> n \<le> 100"
proof -
  define ig where "ig = (case ignored of None \<Rightarrow> {} | Some s \<Rightarrow> s)"
  define used where "used = count_kept ig (card_usedIngredients c)"
  define missed where "missed = count_kept ig (card_missedIngredients c)"
  show ?thesis
  proof (cases "used + missed = 0")
    case True
    then show ?thesis
      by (simp add: getMatchScore_def Let_def ig_def used_def missed_def)
  next
    case False
    then have "used \<le> used + missed" "0 < used + missed" by simp_all
    from score_bounds [OF this] obtain ratio where
      r: "double_div (of_nat used) (of_nat (used + missed)) = Some ratio"
        "0 \<le> Math_round (double_mul ratio 100)" "Math_round (double_mul ratio 100) \<le> 100"
      by blast
    have g: "getMatchScore c ignored =
        (if used + missed = 0 then Some 0
         else (case double_div (of_nat used) (of_nat (used + missed)) of
                 None \<Rightarrow> None
               | Some ratio \<Rightarrow> Some (Math_round (double_mul ratio 100))))"
      by (simp only: getMatchScore_def Let_def ig_def used_def missed_def)
    have "getMatchScore c ignored = Some (Math_round (double_mul ratio 100))"
      using False r(1) by (simp only: g if_False option.case)
    then show ?thesis using r(2,3) by simp
  qed
qed

text \<open>One used ingredient of three: a third, as doubles compute it, is 33 percent.\<close>

lemma round_half_even_below:
  "of_int n \<le> m \<Longrightarrow> m < of_int n + 1 / 2 \<Longrightarrow> round_half_even m = n"
proof -
  assume a: "of_int n \<le> m" "m < of_int n + 1 / 2"
  then have "\<lfloor>m\<rfloor> = n" by (simp add: floor_eq_iff)
  then show ?thesis using a by (simp add: round_half_even_def Let_def)
qed

lemma third: "round_double (1 / 3) = 6004799503160661 / 18014398509481984"
proof -
  have "round_half_even (18014398509481984 / 3) = 6004799503160661"
    by (rule round_half_even_below) simp_all
  then show ?thesis by (simp add: round_double.simps)
qed

lemma third_percent: "double_mul (6004799503160661 / 18014398509481984) 100 = 2345624805922133 / 70368744177664"
proof -
  have "round_half_even (150119987579016525 / 32) = 4691249611844266"
    by (rule round_half_even_below) simp_all
  then show ?thesis by (simp add: double_mul_def round_double.simps)
qed

lemma getMatchScore_example:
  "getMatchScore \<lparr> card_usedIngredients = Some [named ''Egg''],
                    card_missedIngredients = Some [named ''Milk'', named ''Flour''] \<rparr> None = Some 33"
proof -
  have "Math_round (2345624805922133 / 70368744177664) = 33"
    by (simp add: Math_round_def floor_eq_iff)
  then show ?thesis
    by (simp add: getMatchScore_def count_kept_def or_empty_def double_div_def third third_percent)
qed

text \<open>
  29 used ingredients of 200: the quotient and the product are rounded as doubles are,
  the product is a little below 14.5, and the score is 14 (exact arithmetic would give
  14.5 and the score 15).
\<close>

lemma ratio_29_200: "round_double (29 / 200) = 5224175567749775 / 36028797018963968"
proof -
  have "round_half_even (130604389193744384 / 25) = 5224175567749775"
    by (rule round_half_even_below) simp_all
  then show ?thesis by (simp add: round_double.simps)
qed

lemma percent_29_200:
  "double_mul (5224175567749775 / 36028797018963968) 100 = 8162774324609023 / 562949953421312"
proof -
  have "round_half_even (130604389193744375 / 16) = 8162774324609023"
    by (rule round_half_even_below) simp_all
  then show ?thesis by (simp add: double_mul_def round_double.simps)
qed

lemma getMatchScore_rounding_example:
  "getMatchScore \<lparr> card_usedIngredients = Some (replicate 29 (named ''Egg'')),
                    card_missedIngredients = Some (replicate 171 (named ''Milk'')) \<rparr> None = Some 14"
proof -
  have "Math_round (8162774324609023 / 562949953421312) = 14"
    by (simp add: Math_round_def floor_eq_iff)
  then show ?thesis
    by (simp add: getMatchScore_def count_kept_def or_empty_def double_div_def
        ratio_29_200 percent_29_200)
qed

section \<open>Properties of the detail lookup\<close>

lemma decimal_404: "decimal 404 = ''404''"
  by code_simp

lemma lower_spoonacular: "toLowerCase ''spoonacular'' = ''spoonacular''"
  by code_simp

lemma lower_mealdb: "toLowerCase ''mealdb'' = ''mealdb''"
  by code_simp

lemma lower_both: "toLowerCase ''both'' = ''both''"
  by code_simp

lemma normalizeSource_names:
  "normalizeSource (Str ''spoonacular'') = Inr ''spoonacular''"
  "normalizeSource (Str ''mealdb'') = Inr ''mealdb''"
  "normalizeSource (Str ''both'') = Inr ''both''"
  by (simp_all add: normalizeSource_def default_arg_def lower_spoonacular lower_mealdb lower_both)

lemma selected_source_default:
  "selected_source (default_arg (Str ''mealdb'') src) = selected_source src"
  by (simp add: selected_source_def default_arg_def)

lemma selected_source_names:
  "selected_source (Str ''spoonacular'') = Inr ''spoonacular''"
  "selected_source (Str ''mealdb'') = Inr ''mealdb''"
  "selected_source (Str ''both'') = Inr ''mealdb''"
  "selected_source Undefined = Inr ''mealdb''"
  by (simp_all add: selected_source_def default_arg_def normalizeSource_names)

text \<open>
  Claim C1, for the source \<open>spoonacular\<close>. A detail request for an id that Spoonacular
  answers with status 404 is answered with status 502 and the upstream message, not with
  404 and \<open>Recipe not found\<close>: only the TheMealDB branch of \<open>getMealDetail\<close> raises
  \<open>Recipe not found\<close>.
\<close>

theorem get_recipe_by_id_spoonacular_unknown:
  "get_recipe_by_id sample_env ''999'' (Str ''spoonacular'')
     = \<lparr> status = 502,
         body = DetailError ''Request failed (404): A recipe with the id does not exist.'' \<rparr>"
  by (simp add: get_recipe_by_id_def getMealDetail_def selected_source_default selected_source_names
      fetchFromSpoonacular_def fetchJson_def sample_env_def decimal_404
      detail_error_response_def status_json_def)

lemma get_recipe_by_id_mealdb_unknown:
  "get_recipe_by_id sample_env ''999'' Undefined
     = \<lparr> status = 404, body = DetailError ''Recipe not found'' \<rparr>"
  by (simp add: get_recipe_by_id_def getMealDetail_def selected_source_default selected_source_names
      fetchFromMealDb_def fetchJson_def sample_env_def or_empty_def
      detail_error_response_def status_json_def)

lemma mealdb_path_not_found:
  assumes "selected_source src = Inr sel"
    and "sel \<noteq> ''spoonacular''"
    and "mealdb_lookup e ident = Ok meals"
    and "or_empty meals = []"
  shows "get_recipe_by_id e ident src = \<lparr> status = 404, body = DetailError ''Recipe not found'' \<rparr>"
  using assms
  by (simp add: get_recipe_by_id_def getMealDetail_def selected_source_default
      fetchFromMealDb_def fetchJson_def detail_error_response_def status_json_def)

lemma mealdb_path_upstream_failure:
  assumes "selected_source src = Inr sel"
    and "sel \<noteq> ''spoonacular''"
    and "mealdb_lookup e ident = NotOk code text"
  shows "get_recipe_by_id e ident src
           = \<lparr> status = 502,
               body = DetailError (''Request failed ('' @ decimal code @ ''): '' @ text) \<rparr>"
  using assms
  by (simp add: get_recipe_by_id_def getMealDetail_def selected_source_default
      fetchFromMealDb_def fetchJson_def detail_error_response_def status_json_def)

lemma spoonacular_path_never_404:
  assumes "selected_source src = Inr ''spoonacular''"
    and "spoonacular_information e ident \<noteq> Rejected ''Recipe not found''"
  shows "status (get_recipe_by_id e ident src) \<noteq> 404"
  using assms
  by (cases "spoonacular_information e ident")
     (auto simp: get_recipe_by_id_def getMealDetail_def selected_source_default
        fetchFromSpoonacular_def fetchJson_def detail_error_response_def status_json_def json_def)

section \<open>Properties of the video endpoint\<close>

lemma sample_detail:
  "getMealDetail sample_env ''52772'' (default_arg (Str ''mealdb'') Undefined) = Inr (MealDbDetail sample_meal)"
  by (simp add: getMealDetail_def selected_source_default selected_source_names
      fetchFromMealDb_def fetchJson_def sample_env_def or_empty_def)

lemma sample_ingredients:
  "normalizeMealIngredients (MealDbDetail sample_meal) = [''2 slices Bread'']"
  by code_simp

lemma sample_steps:
  "normalizeMealSteps (MealDbDetail sample_meal) = [''Toast the bread.'', ''Serve.'']"
  by code_simp

text \<open>
  Claim C2. For a request with a \<open>recipeId\<close> whose recipe is found and has at least one
  ingredient and one step, a server without an OpenAI client answers with status 200,
  \<open>preview: true\<close> and a non-empty \<open>prompt\<close>, the one built from the recipe; no \<open>error\<close>
  field is sent.
\<close>

theorem post_video_preview_without_credential:
  assumes "openaiClient e = None"
    and "truthy (recipeId req)"
    and "getMealDetail e (the (recipeId req)) (default_arg (Str ''mealdb'') (video_source req)) = Inr d"
    and "normalizeMealIngredients d \<noteq> []"
    and "normalizeMealSteps d \<noteq> []"
  shows "\<exists>r prompt. post_video e req = Inr r \<and> status r = 200
           \<and> vb_preview (body r) = Some True
           \<and> vb_prompt (body r) = Some prompt \<and> prompt \<noteq> []
           \<and> prompt = buildSoraPrompt (recipe_name d) (normalizeMealIngredients d) (normalizeMealSteps d)
           \<and> vb_error (body r) = None"
  using assms buildSoraPrompt_nonempty
  by (simp add: post_video_def Let_def json_def no_fields_def)

theorem post_video_preview_without_credential_witness:
  "\<exists>r. post_video sample_env sample_video_request = Inr r \<and> status r = 200
         \<and> vb_preview (body r) = Some True
         \<and> vb_prompt (body r)
             = Some (buildSoraPrompt (Some ''Toast'') [''2 slices Bread''] [''Toast the bread.'', ''Serve.''])
         \<and> vb_error (body r) = None"
proof -
  have 1: "openaiClient sample_env = None" by (simp add: sample_env_def)
  have 2: "truthy (recipeId sample_video_request)" by (simp add: sample_video_request_def truthy_def)
  have 3: "getMealDetail sample_env (the (recipeId sample_video_request))
             (default_arg (Str ''mealdb'') (video_source sample_video_request)) = Inr (MealDbDetail sample_meal)"
    using sample_detail by (simp add: sample_video_request_def)
  have 4: "normalizeMealIngredients (MealDbDetail sample_meal) \<noteq> []" by (simp only: sample_ingredients) simp
  have 5: "normalizeMealSteps (MealDbDetail sample_meal) \<noteq> []" by (simp only: sample_steps) simp
  have n: "recipe_name (MealDbDetail sample_meal) = Some ''Toast''"
    by (simp add: recipe_name_def sample_meal_def truthy_def)
  from post_video_preview_without_credential [OF 1 2 3 4 5]
  obtain r where
    "post_video sample_env sample_video_request = Inr r" "status r = 200"
    "vb_preview (body r) = Some True"
    "vb_prompt (body r)
       = Some (buildSoraPrompt (recipe_name (MealDbDetail sample_meal))
                 (normalizeMealIngredients (MealDbDetail sample_meal))
                 (normalizeMealSteps (MealDbDetail sample_meal)))"
    "vb_error (body r) = None"
    by blast
  then show ?thesis by (simp only: sample_ingredients sample_steps n) blast
qed

section \<open>Properties of the ingredient search\<close>

lemma mealdb_task_fields:
  "mealdb (mealdb_task e i p) =
     (case fetchFromMealDb (mealdb_filter e i) of Inr meals \<Rightarrow> or_empty meals | Inl err \<Rightarrow> mealdb p)"
  "errors_mealdb (errors (mealdb_task e i p)) =
     (case fetchFromMealDb (mealdb_filter e i) of
        Inr meals \<Rightarrow> errors_mealdb (errors p)
      | Inl err \<Rightarrow> if err \<noteq> [] then Some err else errors_mealdb (errors p))"
  "spoonacular (mealdb_task e i p) = spoonacular p"
  "errors_spoonacular (errors (mealdb_task e i p)) = errors_spoonacular (errors p)"
  "payload_source (mealdb_task e i p) = payload_source p"
  by (simp_all add: mealdb_task_def split: sum.splits)

lemma spoonacular_task_fields:
  "spoonacular (spoonacular_task e i q p) =
     (case spoonacular_search e i q of Inr found \<Rightarrow> found | Inl err \<Rightarrow> spoonacular p)"
  "errors_spoonacular (errors (spoonacular_task e i q p)) =
     (case spoonacular_search e i q of
        Inr found \<Rightarrow> errors_spoonacular (errors p)
      | Inl err \<Rightarrow> if err \<noteq> [] then Some err else errors_spoonacular (errors p))"
  "mealdb (spoonacular_task e i q p) = mealdb p"
  "errors_mealdb (errors (spoonacular_task e i q p)) = errors_mealdb (errors p)"
  "payload_source (spoonacular_task e i q p) = payload_source p"
  by (simp_all add: spoonacular_task_def split: sum.splits)

lemma fan_out_mealdb:
  "mealdb (recipes_fan_out e src i q) =
     (if includes_mealdb src
      then (case fetchFromMealDb (mealdb_filter e i) of Inr meals \<Rightarrow> or_empty meals | Inl err \<Rightarrow> [])
      else [])"
  "errors_mealdb (errors (recipes_fan_out e src i q)) =
     (if includes_mealdb src
      then (case fetchFromMealDb (mealdb_filter e i) of
              Inr meals \<Rightarrow> None
            | Inl err \<Rightarrow> if err \<noteq> [] then Some err else None)
      else None)"
  by (simp_all add: recipes_fan_out_def Let_def includes_mealdb_def
        mealdb_task_fields spoonacular_task_fields split: sum.splits)

lemma fan_out_spoonacular:
  "spoonacular (recipes_fan_out e src i q) =
     (if includes_spoonacular src
      then (case spoonacular_search e i q of Inr found \<Rightarrow> found | Inl err \<Rightarrow> [])
      else [])"
  "errors_spoonacular (errors (recipes_fan_out e src i q)) =
     (if includes_spoonacular src
      then (case spoonacular_search e i q of
              Inr found \<Rightarrow> None
            | Inl err \<Rightarrow> if err \<noteq> [] then Some err else None)
      else None)"
  by (simp_all add: recipes_fan_out_def Let_def includes_spoonacular_def
        mealdb_task_fields spoonacular_task_fields split: sum.splits)

lemma fan_out_source: "payload_source (recipes_fan_out e src i q) = src"
  by (simp add: recipes_fan_out_def Let_def mealdb_task_fields spoonacular_task_fields)

text \<open>The two tasks commute: the payload does not depend on which one settles first.\<close>

lemma tasks_commute:
  "spoonacular_task e i q (mealdb_task e i p) = mealdb_task e i (spoonacular_task e i q p)"
  by (simp add: mealdb_task_def spoonacular_task_def split: sum.splits)

lemma spoonacular_search_agree:
  assumes "SPOONACULAR_API_KEY e' = SPOONACULAR_API_KEY e"
    and "spoonacular_complexSearch e' = spoonacular_complexSearch e"
    and "spoonacular_findByIngredients e' = spoonacular_findByIngredients e"
  shows "spoonacular_search e' i q = spoonacular_search e i q"
  using assms by (simp add: spoonacular_search_def fetchFromSpoonacular_def Let_def)

text \<open>
  Claim C3. For a search with a non-empty sanitized ingredient list (and a \<open>source\<close> that
  \<open>normalizeSource\<close> accepts, as every query-string value is), when both result arrays are
  empty after the fan-out, the status is 502 if an error was recorded for a provider and
  404 if none was, and the body carries the error \<open>No recipes found\<close> with the payload.
\<close>

theorem get_recipes_both_empty:
  assumes "sanitizeCsv (q_ingredients q) \<noteq> []"
    and "normalizeSource (default_arg (Str ''both'') (q_source q)) = Inr src"
    and "p = recipes_fan_out e src (sanitizeCsv (q_ingredients q)) q"
    and "mealdb p = []" and "spoonacular p = []"
  shows "get_recipes e q =
           Inr \<lparr> status = (if errors_mealdb (errors p) \<noteq> None \<or> errors_spoonacular (errors p) \<noteq> None
                            then 502 else 404),
                 body = ErrorDetails ''No recipes found'' p \<rparr>"
  using assms
  by (simp add: get_recipes_def Let_def recipes_respond_def status_json_def keys_length_def)

text \<open>
  Claim C4, as it holds. A search answered with status 200 carries the payload of the
  fan-out, in which at least one of the two arrays is non-empty; a provider with an
  entry in \<open>errors\<close> has an empty array; and what a provider contributes (its array and
  its \<open>errors\<close> entry) is the same in every environment that agrees on that provider,
  whatever the other provider does.
\<close>

theorem get_recipes_success_payload:
  assumes "get_recipes e q = Inr r" and "status r = 200"
  shows "\<exists>p. body r = Payload p
           \<and> p = recipes_fan_out e (payload_source p) (sanitizeCsv (q_ingredients q)) q
           \<and> (mealdb p \<noteq> [] \<or> spoonacular p \<noteq> [])
           \<and> (errors_mealdb (errors p) \<noteq> None \<longrightarrow> mealdb p = [])
           \<and> (errors_spoonacular (errors p) \<noteq> None \<longrightarrow> spoonacular p = [])
           \<and> (\<forall>e'. mealdb_filter e' = mealdb_filter e \<longrightarrow>
                 (let p' = recipes_fan_out e' (payload_source p) (sanitizeCsv (q_ingredients q)) q
                  in mealdb p' = mealdb p \<and> errors_mealdb (errors p') = errors_mealdb (errors p)))
           \<and> (\<forall>e'. SPOONACULAR_API_KEY e' = SPOONACULAR_API_KEY e
                      \<and> spoonacular_complexSearch e' = spoonacular_complexSearch e
                      \<and> spoonacular_findByIngredients e' = spoonacular_findByIngredients e \<longrightarrow>
                 (let p' = recipes_fan_out e' (payload_source p) (sanitizeCsv (q_ingredients q)) q
                  in spoonacular p' = spoonacular p
                     \<and> errors_spoonacular (errors p') = errors_spoonacular (errors p)))"
proof -
  let ?i = "sanitizeCsv (q_ingredients q)"
  have g: "get_recipes e q =
     (if ?i = []
      then Inr (status_json 400 (ErrorOnly ''Ingredients query parameter is required''))
      else (case normalizeSource (default_arg (Str ''both'') (q_source q)) of
              Inl err \<Rightarrow> Inl err
            | Inr selectedSource \<Rightarrow> Inr (recipes_respond (recipes_fan_out e selectedSource ?i q))))"
    by (simp only: get_recipes_def Let_def)
  have ne: "?i \<noteq> []"
  proof
    assume "?i = []"
    then have "r = status_json 400 (ErrorOnly ''Ingredients query parameter is required'')"
      using assms(1) g by simp
    then show False using assms(2) by (simp add: status_json_def)
  qed
  obtain src where src: "normalizeSource (default_arg (Str ''both'') (q_source q)) = Inr src"
  proof (cases "normalizeSource (default_arg (Str ''both'') (q_source q))")
    case (Inl err)
    then have "get_recipes e q = Inl err" using g ne by simp
    then show ?thesis using assms(1) by simp
  next
    case (Inr s)
    then show ?thesis using that by simp
  qed
  let ?p = "recipes_fan_out e src ?i q"
  have r: "r = recipes_respond ?p"
    using assms(1) g ne src by simp
  have resp: "recipes_respond ?p =
      (if mealdb ?p = [] \<and> spoonacular ?p = []
       then status_json (if keys_length (errors ?p) \<noteq> 0 then 502 else 404)
              (ErrorDetails ''No recipes found'' ?p)
       else json (Payload ?p))"
    by (simp add: recipes_respond_def)
  have nonempty: "\<not> (mealdb ?p = [] \<and> spoonacular ?p = [])"
  proof
    assume "mealdb ?p = [] \<and> spoonacular ?p = []"
    then have "r = status_json (if keys_length (errors ?p) \<noteq> 0 then 502 else 404)
          (ErrorDetails ''No recipes found'' ?p)"
      using r resp by simp
    then have "status r = 502 \<or> status r = 404"
      by (simp add: status_json_def)
    then show False using assms(2) by simp
  qed
  then have "recipes_respond ?p = json (Payload ?p)"
    unfolding resp by (rule if_not_P)
  then have "r = json (Payload ?p)"
    using r by simp
  then have b: "body r = Payload ?p"
    by (simp add: json_def)
  have s: "payload_source ?p = src" by (rule fan_out_source)
  have 1: "mealdb ?p \<noteq> [] \<or> spoonacular ?p \<noteq> []" using nonempty by blast
  have 2: "errors_mealdb (errors ?p) \<noteq> None \<longrightarrow> mealdb ?p = []"
    by (simp add: fan_out_mealdb split: sum.splits)
  have 3: "errors_spoonacular (errors ?p) \<noteq> None \<longrightarrow> spoonacular ?p = []"
    by (simp add: fan_out_spoonacular split: sum.splits)
  have 4: "\<forall>e'. mealdb_filter e' = mealdb_filter e \<longrightarrow>
             (let p' = recipes_fan_out e' src ?i q
              in mealdb p' = mealdb ?p \<and> errors_mealdb (errors p') = errors_mealdb (errors ?p))"
  proof (intro allI impI)
    fix e' :: env
    assume "mealdb_filter e' = mealdb_filter e"
    then show "let p' = recipes_fan_out e' src ?i q
               in mealdb p' = mealdb ?p \<and> errors_mealdb (errors p') = errors_mealdb (errors ?p)"
      unfolding Let_def fan_out_mealdb by simp
  qed
  have 5: "\<forall>e'. SPOONACULAR_API_KEY e' = SPOONACULAR_API_KEY e
                  \<and> spoonacular_complexSearch e' = spoonacular_complexSearch e
                  \<and> spoonacular_findByIngredients e' = spoonacular_findByIngredients e \<longrightarrow>
             (let p' = recipes_fan_out e' src ?i q
              in spoonacular p' = spoonacular ?p
                 \<and> errors_spoonacular (errors p') = errors_spoonacular (errors ?p))"
  proof (intro allI impI)
    fix e' :: env
    assume "SPOONACULAR_API_KEY e' = SPOONACULAR_API_KEY e
              \<and> spoonacular_complexSearch e' = spoonacular_complexSearch e
              \<and> spoonacular_findByIngredients e' = spoonacular_findByIngredients e"
    then have "spoonacular_search e' ?i q = spoonacular_search e ?i q"
      by (simp add: spoonacular_search_agree [of e' e])
    then show "let p' = recipes_fan_out e' src ?i q
               in spoonacular p' = spoonacular ?p
                  \<and> errors_spoonacular (errors p') = errors_spoonacular (errors ?p)"
      unfolding Let_def fan_out_spoonacular by simp
  qed
  have 0: "?p = recipes_fan_out e (payload_source ?p) ?i q" by (simp only: s)
  show ?thesis
  proof (intro exI [of _ ?p] conjI)
    show "body r = Payload ?p" by (rule b)
    show "?p = recipes_fan_out e (payload_source ?p) ?i q" by (rule 0)
    show "mealdb ?p \<noteq> [] \<or> spoonacular ?p \<noteq> []" by (rule 1)
    show "errors_mealdb (errors ?p) \<noteq> None \<longrightarrow> mealdb ?p = []" by (rule 2)
    show "errors_spoonacular (errors ?p) \<noteq> None \<longrightarrow> spoonacular ?p = []" by (rule 3)
    show "\<forall>e'. mealdb_filter e' = mealdb_filter e \<longrightarrow>
             (let p' = recipes_fan_out e' (payload_source ?p) ?i q
              in mealdb p' = mealdb ?p \<and> errors_mealdb (errors p') = errors_mealdb (errors ?p))"
      using 4 by (simp only: s)
    show "\<forall>e'. SPOONACULAR_API_KEY e' = SPOONACULAR_API_KEY e
                  \<and> spoonacular_complexSearch e' = spoonacular_complexSearch e
                  \<and> spoonacular_findByIngredients e' = spoonacular_findByIngredients e \<longrightarrow>
             (let p' = recipes_fan_out e' (payload_source ?p) ?i q
              in spoonacular p' = spoonacular ?p
                 \<and> errors_spoonacular (errors p') = errors_spoonacular (errors ?p))"
      using 5 by (simp only: s)
  qed
qed

lemma sample_sanitized: "sanitizeCsv (q_ingredients sample_query) = ''leek''"
  by (simp add: sample_query_def sanitizeCsv_def default_str_def trim_def is_space_def truthy_str_def)

lemma sample_source: "normalizeSource (default_arg (Str ''both'') (q_source sample_query)) = Inr ''both''"
  by (simp add: sample_query_def default_arg_def normalizeSource_names)

lemma sample_fan_out:
  "recipes_fan_out sample_env ''both'' ''leek'' sample_query
     = (empty_payload ''both'')\<lparr> spoonacular := [sample_entry] \<rparr>"
  by (simp add: recipes_fan_out_def includes_mealdb_def includes_spoonacular_def
      mealdb_task_def spoonacular_task_def spoonacular_search_def
      fetchFromMealDb_def fetchFromSpoonacular_def fetchJson_def sample_env_def sample_query_def
      default_str_def or_empty_def empty_payload_def Let_def)

lemma no_key_fan_out:
  "recipes_fan_out no_key_env ''both'' ''leek'' sample_query
     = (empty_payload ''both'')\<lparr> errors :=
          \<lparr> errors_mealdb = None,
            errors_spoonacular = Some ''Spoonacular API key is not configured'' \<rparr> \<rparr>"
  by (simp add: recipes_fan_out_def includes_mealdb_def includes_spoonacular_def
      mealdb_task_def spoonacular_task_def spoonacular_search_def
      fetchFromMealDb_def fetchFromSpoonacular_def fetchJson_def sample_env_def sample_query_def
      no_key_env_def default_str_def or_empty_def empty_payload_def Let_def)

lemma no_match_fan_out:
  "recipes_fan_out no_match_env ''both'' ''leek'' sample_query = empty_payload ''both''"
  by (simp add: recipes_fan_out_def includes_mealdb_def includes_spoonacular_def
      mealdb_task_def spoonacular_task_def spoonacular_search_def
      fetchFromMealDb_def fetchFromSpoonacular_def fetchJson_def sample_env_def sample_query_def
      no_match_env_def default_str_def or_empty_def empty_payload_def Let_def)

theorem get_recipes_both_empty_witness:
  "get_recipes no_match_env sample_query
     = Inr \<lparr> status = 404, body = ErrorDetails ''No recipes found'' (empty_payload ''both'') \<rparr>
   \<and> get_recipes no_key_env sample_query
     = Inr \<lparr> status = 502,
             body = ErrorDetails ''No recipes found''
                      ((empty_payload ''both'')\<lparr> errors :=
                          \<lparr> errors_mealdb = None,
                            errors_spoonacular = Some ''Spoonacular API key is not configured'' \<rparr> \<rparr>) \<rparr>"
proof -
  have ne: "sanitizeCsv (q_ingredients sample_query) \<noteq> []" by (simp add: sample_sanitized)
  have a: "empty_payload ''both''
             = recipes_fan_out no_match_env ''both'' (sanitizeCsv (q_ingredients sample_query)) sample_query"
    by (simp add: sample_sanitized no_match_fan_out)
  have b: "(empty_payload ''both'')\<lparr> errors :=
              \<lparr> errors_mealdb = None,
                errors_spoonacular = Some ''Spoonacular API key is not configured'' \<rparr> \<rparr>
             = recipes_fan_out no_key_env ''both'' (sanitizeCsv (q_ingredients sample_query)) sample_query"
    by (simp add: sample_sanitized no_key_fan_out)
  have 1: "get_recipes no_match_env sample_query
     = Inr \<lparr> status = 404, body = ErrorDetails ''No recipes found'' (empty_payload ''both'') \<rparr>"
    using get_recipes_both_empty [OF ne sample_source a] by (simp add: empty_payload_def)
  have 2: "get_recipes no_key_env sample_query
     = Inr \<lparr> status = 502,
             body = ErrorDetails ''No recipes found''
                      ((empty_payload ''both'')\<lparr> errors :=
                          \<lparr> errors_mealdb = None,
                            errors_spoonacular = Some ''Spoonacular API key is not configured'' \<rparr> \<rparr>) \<rparr>"
    using get_recipes_both_empty [OF ne sample_source b] by (simp add: empty_payload_def)
  show ?thesis using 1 2 by simp
qed

text \<open>
  Claim C4 as stated fails: with both providers queried, TheMealDB finding nothing and
  Spoonacular finding one recipe, the search succeeds with an empty \<open>mealdb\<close> array and
  no \<open>errors\<close> entry for TheMealDB.
\<close>

theorem get_recipes_empty_provider_counterexample:
  "get_recipes sample_env sample_query
     = Inr \<lparr> status = 200,
             body = Payload \<lparr> payload_source = ''both'', mealdb = [], spoonacular = [sample_entry],
                       errors = \<lparr> errors_mealdb = None, errors_spoonacular = None \<rparr> \<rparr> \<rparr>"
  by (simp add: get_recipes_def sample_sanitized sample_source sample_fan_out
      recipes_respond_def json_def empty_payload_def)

theorem get_recipes_success_payload_witness:
  "get_recipes sample_env sample_query
     = Inr (json (Payload ((empty_payload ''both'')\<lparr> spoonacular := [sample_entry] \<rparr>)))
   \<and> status (json (Payload ((empty_payload ''both'')\<lparr> spoonacular := [sample_entry] \<rparr>))) = 200
   \<and> mealdb (recipes_fan_out no_key_env ''both'' ''leek'' sample_query) = []
   \<and> errors_mealdb (errors (recipes_fan_out no_key_env ''both'' ''leek'' sample_query)) = None"
proof -
  have g: "get_recipes sample_env sample_query
     = Inr (json (Payload ((empty_payload ''both'')\<lparr> spoonacular := [sample_entry] \<rparr>)))"
    by (simp add: get_recipes_def sample_sanitized sample_source sample_fan_out
        recipes_respond_def json_def empty_payload_def)
  have s: "status (json (Payload ((empty_payload ''both'')\<lparr> spoonacular := [sample_entry] \<rparr>))) = 200"
    by (simp add: json_def)
  have m: "mealdb_filter no_key_env = mealdb_filter sample_env"
    by (simp add: no_key_env_def)
  from get_recipes_success_payload [OF g s] obtain p where
    p: "body (json (Payload ((empty_payload ''both'')\<lparr> spoonacular := [sample_entry] \<rparr>))) = Payload p"
      "\<forall>e'. mealdb_filter e' = mealdb_filter sample_env \<longrightarrow>
         (let p' = recipes_fan_out e' (payload_source p) (sanitizeCsv (q_ingredients sample_query)) sample_query
          in mealdb p' = mealdb p \<and> errors_mealdb (errors p') = errors_mealdb (errors p))"
    by blast
  have pe: "p = (empty_payload ''both'')\<lparr> spoonacular := [sample_entry] \<rparr>"
    using p(1) by (simp add: json_def)
  have "mealdb (recipes_fan_out no_key_env ''both'' ''leek'' sample_query) = mealdb p
        \<and> errors_mealdb (errors (recipes_fan_out no_key_env ''both'' ''leek'' sample_query))
            = errors_mealdb (errors p)"
    using p(2) m by (simp add: Let_def pe sample_sanitized empty_payload_def)
  then show ?thesis using g s by (simp add: pe empty_payload_def)
qed

end
